theory Spec2Isabelle
  imports Complex_Main
begin

section \<open>Numeric model\<close>

text \<open>
  The tensors of the program hold floating-point numbers. They are modelled by
  real numbers: comparisons, sums, products and differences are the exact ones.
  The one operation of the program whose floating-point result is not a number
  is the perspective divide, so a quotient is a value of \<open>fval\<close>: a finite
  number, an infinity or not-a-number. A tensor division never raises.
\<close>

datatype fval = Fin real | PInf | NInf | NaN

text \<open>\<open>a / b\<close> on tensors; a zero denominator is taken as \<open>+0.0\<close>.\<close>

definition fdiv :: "real \<Rightarrow> real \<Rightarrow> fval" where
  "fdiv a b =
     (if b \<noteq> 0 then Fin (a / b)
      else if 0 < a then PInf
      else if a < 0 then NInf
      else NaN)"

text \<open>\<open>x > c\<close> and \<open>x < c\<close> on a quotient: every comparison with NaN is false.\<close>

fun fgt :: "fval \<Rightarrow> real \<Rightarrow> bool" where
  "fgt (Fin a) c = (a > c)"
| "fgt PInf c = True"
| "fgt NInf c = False"
| "fgt NaN c = False"

fun flt :: "fval \<Rightarrow> real \<Rightarrow> bool" where
  "flt (Fin a) c = (a < c)"
| "flt PInf c = False"
| "flt NInf c = True"
| "flt NaN c = False"

fun is_finite :: "fval \<Rightarrow> bool" where
  "is_finite (Fin a) = True"
| "is_finite PInf = False"
| "is_finite NInf = False"
| "is_finite NaN = False"

section \<open>Vectors and matrices\<close>

text \<open>
  A point is a row of an \<open>N x 3\<close> tensor; a point cloud is the list of its rows.
  The transposed \<open>3 x N\<close> tensor of the program is the same list read by
  columns, so \<open>verts[2]\<close> of the program is \<open>map vz verts\<close> here.
\<close>

type_synonym vec3 = "real \<times> real \<times> real"
type_synonym mat3 = "vec3 \<times> vec3 \<times> vec3"
type_synonym vec4 = "real \<times> real \<times> real \<times> real"
type_synonym mat4 = "vec4 \<times> vec4 \<times> vec4 \<times> vec4"

fun vx :: "vec3 \<Rightarrow> real" where "vx (x, y, z) = x"
fun vy :: "vec3 \<Rightarrow> real" where "vy (x, y, z) = y"
fun vz :: "vec3 \<Rightarrow> real" where "vz (x, y, z) = z"

fun vsub :: "vec3 \<Rightarrow> vec3 \<Rightarrow> vec3" where
  "vsub (a, b, c) (x, y, z) = (a - x, b - y, c - z)"

fun vadd :: "vec3 \<Rightarrow> vec3 \<Rightarrow> vec3" where
  "vadd (a, b, c) (x, y, z) = (a + x, b + y, c + z)"

fun dot :: "vec3 \<Rightarrow> vec3 \<Rightarrow> real" where
  "dot (a, b, c) (x, y, z) = a * x + b * y + c * z"

text \<open>\<open>M @ v\<close> for one column \<open>v\<close>.\<close>

fun matvec :: "mat3 \<Rightarrow> vec3 \<Rightarrow> vec3" where
  "matvec (r0, r1, r2) v = (dot r0 v, dot r1 v, dot r2 v)"

text \<open>\<open>torch.transpose(M, 0, 1)\<close>, \<open>M.T\<close>.\<close>

fun transpose3 :: "mat3 \<Rightarrow> mat3" where
  "transpose3 ((a, b, c), (d, e, f), (g, h, i)) = ((a, d, g), (b, e, h), (c, f, i))"

text \<open>\<open>M[:3, :3]\<close> of a \<open>4 x 4\<close> matrix.\<close>

fun top_left3 :: "mat4 \<Rightarrow> mat3" where
  "top_left3 ((a, b, c, d), (e, f, g, h), (i, j, k, l), r3) = ((a, b, c), (e, f, g), (i, j, k))"

text \<open>\<open>torch.sum(mask, dtype=torch.float)\<close>: the number of true entries.\<close>

definition torch_sum :: "bool list \<Rightarrow> real" where
  "torch_sum msk = (\<Sum>b\<leftarrow>msk. if b then 1 else 0)"

text \<open>\<open>torch.logical_and\<close> and \<open>&\<close> on two boolean tensors of one length.\<close>

definition logical_and :: "bool list \<Rightarrow> bool list \<Rightarrow> bool list" where
  "logical_and xs ys = map2 (\<and>) xs ys"

text \<open>Boolean-mask indexing \<open>verts[mask, :]\<close>: the rows whose mask entry is true.\<close>

definition select_rows :: "'a list \<Rightarrow> bool list \<Rightarrow> 'a list" where
  "select_rows xs msk = map fst (filter snd (zip xs msk))"

section \<open>camera\_orient\_optimization\_3d.py\<close>

text \<open>
  \<open>look_at_view_transform\<close> belongs to an external library: it is a parameter
  \<open>la\<close> of every function that calls it, giving the rotation and the translation
  of a pose.
\<close>

type_synonym look_at = "real \<Rightarrow> real \<Rightarrow> real \<Rightarrow> mat3 \<times> vec3"

definition load_intrinsics :: "mat4 \<times> real \<times> real" where
  "load_intrinsics =
     (((758.03967, 0, 621.46572, 0),
       (0, 761.62359, 756.86402, 0),
       (0, 0, 1, 0),
       (0, 0, 0, 1)), 1232, 1616)"

text \<open>The local variables of \<open>rewards_from_pose\<close>, in the order of the source.\<close>

definition rfp_verts :: "look_at \<Rightarrow> real \<Rightarrow> real \<Rightarrow> real \<Rightarrow> vec3 list \<Rightarrow> vec3 list" where
  "rfp_verts la cdist elev azim verts =
     (case la cdist elev azim of (R, T) \<Rightarrow>
        let R_inv = transpose3 R
        in map (\<lambda>p. matvec R_inv (vsub p T)) verts)"

definition rfp_dist_mask :: "vec3 list \<Rightarrow> real \<Rightarrow> real \<Rightarrow> bool list" where
  "rfp_dist_mask verts min_dist max_dist =
     map (\<lambda>p. vz p > min_dist \<and> vz p < max_dist) verts"

text \<open>
  \<open>pts_homo = intrins @ points; pts_homo[:2] /= pts_homo[2:3]\<close>, for one point:
  the first two rows are divided by the third, whatever the third is.
\<close>

definition pts_homo :: "mat3 \<Rightarrow> vec3 \<Rightarrow> fval \<times> fval \<times> real" where
  "pts_homo intrins p = (case matvec intrins p of (x, y, z) \<Rightarrow> (fdiv x z, fdiv y z, z))"

definition rfp_fov_mask :: "vec3 list \<Rightarrow> bool list" where
  "rfp_fov_mask verts =
     (case load_intrinsics of (K, img_width, img_height) \<Rightarrow>
        map (\<lambda>p. case pts_homo (top_left3 K) p of (u, v, w) \<Rightarrow>
               w > 0 \<and>
               fgt u 1 \<and> flt u (img_width - 1) \<and>
               fgt v 1 \<and> flt v (img_height - 1)) verts)"

definition rfp_mask :: "look_at \<Rightarrow> real \<Rightarrow> real \<Rightarrow> real \<Rightarrow> vec3 list \<Rightarrow> real \<Rightarrow> real \<Rightarrow> bool list" where
  "rfp_mask la cdist elev azim verts min_dist max_dist =
     (let verts' = rfp_verts la cdist elev azim verts
      in logical_and (rfp_dist_mask verts' min_dist max_dist) (rfp_fov_mask verts'))"

definition rewards_from_pose ::
    "look_at \<Rightarrow> real \<Rightarrow> real \<Rightarrow> real \<Rightarrow> vec3 list \<Rightarrow> real \<Rightarrow> real \<Rightarrow> real" where
  "rewards_from_pose la cdist elev azim verts min_dist max_dist =
     torch_sum (rfp_mask la cdist elev azim verts min_dist max_dist)"

text \<open>A call that leaves \<open>min_dist=1.0, max_dist=10.0\<close> at their defaults.\<close>

definition rewards_from_pose_dflt :: "look_at \<Rightarrow> real \<Rightarrow> real \<Rightarrow> real \<Rightarrow> vec3 list \<Rightarrow> real" where
  "rewards_from_pose_dflt la cdist elev azim verts =
     rewards_from_pose la cdist elev azim verts 1 10"

subsection \<open>FrustumVisibilityEst\<close>

text \<open>\<open>ctx.save_for_backward\<close>: the three tensors kept for the backward pass.\<close>

record ctx =
  rewards_ddist :: real
  rewards_delev :: real
  rewards_dazim :: real

definition FrustumVisibilityEst_forward ::
    "look_at \<Rightarrow> real \<Rightarrow> real \<Rightarrow> real \<Rightarrow> vec3 list \<Rightarrow> real \<Rightarrow> ctx \<times> real" where
  "FrustumVisibilityEst_forward la cdist elev azim verts delta =
     (let rewards = rewards_from_pose_dflt la cdist elev azim verts;
          ddist = rewards_from_pose_dflt la (cdist + delta) elev azim verts - rewards;
          delev = rewards_from_pose_dflt la cdist (elev + delta) azim verts - rewards;
          dazim = rewards_from_pose_dflt la cdist elev (azim + delta) verts - rewards
      in (\<lparr>rewards_ddist = ddist, rewards_delev = delev, rewards_dazim = dazim\<rparr>, rewards))"

text \<open>The gradients of \<open>dist\<close>, \<open>elev\<close>, \<open>azim\<close>, and \<open>None\<close> for \<open>verts\<close>.\<close>

definition FrustumVisibilityEst_backward ::
    "ctx \<Rightarrow> real \<Rightarrow> real \<times> real \<times> real \<times> unit option" where
  "FrustumVisibilityEst_backward c grad_output =
     (let ddist = grad_output * rewards_ddist c;
          delev = grad_output * rewards_delev c;
          dazim = grad_output * rewards_dazim c
      in (ddist, delev, dazim, None))"

text \<open>\<open>FrustumVisibilityEst.apply\<close> with four arguments: \<open>delta=0.05\<close>.\<close>

definition FrustumVisibilityEst_apply ::
    "look_at \<Rightarrow> real \<Rightarrow> real \<Rightarrow> real \<Rightarrow> vec3 list \<Rightarrow> ctx \<times> real" where
  "FrustumVisibilityEst_apply la cdist elev azim verts =
     FrustumVisibilityEst_forward la cdist elev azim verts 0.05"

subsection \<open>Model\<close>

record Model =
  m_points :: "vec3 list"
  m_dist :: real
  m_elev :: real
  m_azim :: real
  m_R :: mat3
  m_T :: vec3
  m_K :: mat4
  m_width :: real
  m_height :: real
  m_eps :: real
  m_pc_clip_limits :: "real \<times> real"

definition Model_init ::
    "look_at \<Rightarrow> vec3 list \<Rightarrow> real \<Rightarrow> real \<Rightarrow> real \<Rightarrow> real \<Rightarrow> real \<Rightarrow> Model" where
  "Model_init la points cdist elev azim min_dist max_dist =
     (case la cdist elev azim of (R, T) \<Rightarrow>
      case load_intrinsics of (K, width, height) \<Rightarrow>
        \<lparr>m_points = points, m_dist = cdist, m_elev = elev, m_azim = azim,
         m_R = R, m_T = T, m_K = K, m_width = width, m_height = height,
         m_eps = 1 / 1000000, m_pc_clip_limits = (min_dist, max_dist)\<rparr>)"

text \<open>The constructor with \<open>min_dist=1.0, max_dist=5.0\<close> left at their defaults.\<close>

definition Model_init_dflt :: "look_at \<Rightarrow> vec3 list \<Rightarrow> real \<Rightarrow> real \<Rightarrow> real \<Rightarrow> Model" where
  "Model_init_dflt la points cdist elev azim = Model_init la points cdist elev azim 1 5"

definition get_dist_mask :: "vec3 list \<Rightarrow> real \<Rightarrow> real \<Rightarrow> bool list" where
  "get_dist_mask points min_dist max_dist =
     map (\<lambda>p. vz p > min_dist \<and> vz p < max_dist) points"

definition get_fov_mask :: "vec3 list \<Rightarrow> real \<Rightarrow> real \<Rightarrow> mat4 \<Rightarrow> bool list" where
  "get_fov_mask points img_height img_width intrins =
     map (\<lambda>p. case pts_homo (top_left3 intrins) p of (u, v, w) \<Rightarrow>
            w > 0 \<and> fgt u 1 \<and>
            flt u (img_width - 1) \<and> fgt v 1 \<and>
            flt v (img_height - 1)) points"

definition to_camera_frame :: "vec3 list \<Rightarrow> mat3 \<Rightarrow> vec3 \<Rightarrow> vec3 list" where
  "to_camera_frame verts R T =
     (let R_inv = transpose3 R
      in map (\<lambda>p. matvec R_inv (vsub p T)) verts)"

text \<open>
  \<open>Model.forward\<close> assigns \<open>self.R\<close> and \<open>self.T\<close>, so it returns the model too.
  The loss is a quotient, hence an \<open>fval\<close>.
\<close>

definition Model_forward :: "look_at \<Rightarrow> Model \<Rightarrow> Model \<times> vec3 list \<times> fval" where
  "Model_forward la m =
     (let rewards = snd (FrustumVisibilityEst_apply la (m_dist m) (m_elev m) (m_azim m) (m_points m));
          loss = fdiv 1 (rewards + m_eps m)
      in case la (m_dist m) (m_elev m) (m_azim m) of (R, T) \<Rightarrow>
         let m' = m\<lparr>m_R := R, m_T := T\<rparr>;
             verts = to_camera_frame (m_points m') (m_R m') (m_T m');
             dist_mask = get_dist_mask verts (fst (m_pc_clip_limits m')) (snd (m_pc_clip_limits m'));
             fov_mask = get_fov_mask verts (m_height m') (m_width m') (m_K m');
             msk = logical_and dist_mask fov_mask;
             verts' = select_rows verts msk
         in (m', verts', loss))"

section \<open>pc\_processor.py\<close>

text \<open>
  The node's surroundings: the parameter server read by \<open>rospy.get_param\<close>, the
  subscriptions made by \<open>rospy.Subscriber\<close>, the lines printed and the point
  clouds published (topic, frame id, points).
\<close>

datatype callback = Pc_callback | Cam_info_callback

datatype line = Subscribed_to string | Number_of_observed_points string nat

record ros =
  params :: "string \<rightharpoonup> string"
  subscribers :: "(string \<times> callback) list"
  printed :: "line list"
  published :: "(string \<times> string \<times> vec3 list) list"

definition get_param :: "ros \<Rightarrow> string \<Rightarrow> string \<Rightarrow> string" where
  "get_param w name dflt = (case params w name of Some v \<Rightarrow> v | None \<Rightarrow> dflt)"

datatype error = TfException | TypeError

type_synonym quat = "real \<times> real \<times> real \<times> real"

text \<open>
  What the node calls and does not define: the transform listener
  (\<open>getLatestCommonTime\<close> and \<open>lookupTransform\<close>, which give a translation and a
  quaternion \<open>(x, y, z, w)\<close> or raise) and the two quaternion functions.
\<close>

record extern =
  lookupTransform :: "string \<Rightarrow> string \<Rightarrow> error + (vec3 \<times> quat)"
  quaternion_invert :: "quat \<Rightarrow> quat"
  quaternion_apply :: "quat \<Rightarrow> vec3 \<Rightarrow> vec3"

text \<open>
  The messages: a point cloud as its frame id and its \<open>N x 3\<close> array, a camera
  info as its frame id, its image size and its array \<open>K\<close> of nine numbers.
\<close>

record PointCloud2 =
  pc_frame_id :: string
  pc_xyz :: "vec3 list"

type_synonym float9 = "real \<times> real \<times> real \<times> real \<times> real \<times> real \<times> real \<times> real \<times> real"

record CameraInfo =
  ci_frame_id :: string
  ci_height :: nat
  ci_width :: nat
  ci_K :: float9

record PointsProcessor =
  pp_K :: mat3
  pc_frame :: "string option"
  cam_frame :: "string option"
  pp_points :: "vec3 list option"
  pp_pc_clip_limits :: "real \<times> real"
  pc_topic :: string
  cam_info_topic :: string

text \<open>
  \<open>PointsProcessor.__init__\<close>. Both calls of \<open>rospy.Subscriber\<close> are given the
  constructor's argument, not the attribute read from the parameter server.
\<close>

definition PointsProcessor_init ::
    "ros \<Rightarrow> string \<Rightarrow> string \<Rightarrow> string \<Rightarrow> ros \<times> PointsProcessor" where
  "PointsProcessor_init w pc_topic_arg cam_info_topic_arg path_topic_arg =
     (let self_pc_topic = get_param w ''~pointcloud_topic'' pc_topic_arg;
          w1 = w\<lparr>printed := printed w @ [Subscribed_to self_pc_topic]\<rparr>;
          w2 = w1\<lparr>subscribers := subscribers w1 @ [(pc_topic_arg, Pc_callback)]\<rparr>;
          self_cam_info_topic = get_param w2 ''~cam_info_topic'' cam_info_topic_arg;
          w3 = w2\<lparr>printed := printed w2 @ [Subscribed_to self_cam_info_topic]\<rparr>;
          w4 = w3\<lparr>subscribers := subscribers w3 @ [(cam_info_topic_arg, Cam_info_callback)]\<rparr>
      in (w4,
          \<lparr>pp_K = ((0, 0, 0), (0, 0, 0), (0, 0, 0)),
           pc_frame = None, cam_frame = None, pp_points = None,
           pp_pc_clip_limits = (1, 5),
           pc_topic = self_pc_topic, cam_info_topic = self_cam_info_topic\<rparr>))"

text \<open>\<open>proc = PointsProcessor()\<close>: every argument at its default.\<close>

definition PointsProcessor_init_dflt :: "ros \<Rightarrow> ros \<times> PointsProcessor" where
  "PointsProcessor_init_dflt w =
     PointsProcessor_init w ''/output_3d_pc'' ''/viz/camera_0/camera_info'' ''/path''"

definition ego_to_cam_torch :: "extern \<Rightarrow> vec3 list \<Rightarrow> vec3 \<Rightarrow> quat \<Rightarrow> vec3 list" where
  "ego_to_cam_torch ext points transl q =
     (let points' = map (\<lambda>p. vsub p transl) points;
          quat_inv = quaternion_invert ext q
      in map (quaternion_apply ext quat_inv) points')"

definition get_only_in_img_mask :: "vec3 list \<Rightarrow> real \<Rightarrow> real \<Rightarrow> mat3 \<Rightarrow> bool list" where
  "get_only_in_img_mask pts H W intrins =
     map (\<lambda>p. case pts_homo intrins p of (u, v, w) \<Rightarrow>
            w > 0 \<and>
            fgt u 1 \<and> flt u (W - 1) \<and>
            fgt v 1 \<and> flt v (H - 1)) pts"

definition pc_callback :: "PointsProcessor \<Rightarrow> PointCloud2 \<Rightarrow> PointsProcessor" where
  "pc_callback self pc_msg =
     self\<lparr>pc_frame := Some (pc_frame_id pc_msg), pp_points := Some (pc_xyz pc_msg)\<rparr>"

text \<open>
  A handler changes the node and its surroundings and may raise: it returns both and the
  exception, if any. \<open>run\<close> reads \<open>pc_frame\<close>, \<open>cam_frame\<close> and \<open>points\<close>; with one of
  them still \<open>None\<close> the first call that receives it raises.
\<close>

type_synonym outcome = "error option \<times> ros \<times> PointsProcessor"

definition run :: "extern \<Rightarrow> ros \<Rightarrow> PointsProcessor \<Rightarrow> nat \<Rightarrow> nat \<Rightarrow> outcome" where
  "run ext w self fovH fovW =
     (case (pc_frame self, cam_frame self, pp_points self) of
        (Some pcf, Some camf, Some points) \<Rightarrow>
          (case lookupTransform ext pcf camf of
             Inl e \<Rightarrow> (Some e, w, self)
           | Inr (transl, (q0, q1, q2, q3)) \<Rightarrow>
               let quat_torch = (q3, q0, q1, q2);
                   ego_pts_torch = ego_to_cam_torch ext points transl quat_torch;
                   frame_mask = get_only_in_img_mask ego_pts_torch (real fovH) (real fovW) (pp_K self);
                   cam_pts = select_rows ego_pts_torch frame_mask;
                   dist_mask = map (\<lambda>p. vz p > fst (pp_pc_clip_limits self) \<and>
                                         vz p < snd (pp_pc_clip_limits self)) cam_pts;
                   cam_pts' = select_rows cam_pts dist_mask;
                   w1 = w\<lparr>printed := printed w @ [Number_of_observed_points camf (length cam_pts')]\<rparr>;
                   w2 = w1\<lparr>published := published w1 @ [(''/output/pointcloud'', camf, cam_pts')]\<rparr>
               in (None, w2, self))
      | _ \<Rightarrow> (Some TypeError, w, self))"

text \<open>The entries of \<open>self.K\<close> that the handler assigns; the others keep their values.\<close>

fun set_K :: "mat3 \<Rightarrow> float9 \<Rightarrow> mat3" where
  "set_K ((a, b, c), (d, e, f), (g, h, i)) (k0, k1, k2, k3, k4, k5, k6, k7, k8) =
     ((k0, b, k2), (d, k4, k5), (g, h, 1))"

definition cam_info_callback ::
    "extern \<Rightarrow> ros \<Rightarrow> PointsProcessor \<Rightarrow> CameraInfo \<Rightarrow> outcome" where
  "cam_info_callback ext w self cam_info_msg =
     (let fovH = ci_height cam_info_msg;
          fovW = ci_width cam_info_msg;
          self' = self\<lparr>cam_frame := Some (ci_frame_id cam_info_msg),
                       pp_K := set_K (pp_K self) (ci_K cam_info_msg)\<rparr>
      in if pc_frame self' \<noteq> None then run ext w self' fovH fovW
         else (None, w, self'))"

section \<open>The inverse transform of the specification\<close>

text \<open>
  The program has no function that takes camera-frame points back. The specification
  describes one in words (multiply by \<open>R\<close>, add \<open>T\<close>) for a rotation whose rows are
  orthonormal; the two definitions below follow those words and are used only to
  state the round trip.
\<close>

definition orthonormal :: "mat3 \<Rightarrow> bool" where
  "orthonormal R =
     (case R of (r0, r1, r2) \<Rightarrow>
        dot r0 r0 = 1 \<and> dot r1 r1 = 1 \<and> dot r2 r2 = 1 \<and>
        dot r0 r1 = 0 \<and> dot r0 r2 = 0 \<and> dot r1 r2 = 0)"

definition spec_from_camera_frame :: "vec3 list \<Rightarrow> mat3 \<Rightarrow> vec3 \<Rightarrow> vec3 list" where
  "spec_from_camera_frame verts_cam R T = map (\<lambda>q. vadd (matvec R q) T) verts_cam"

section \<open>Example inputs\<close>

text \<open>A look-at transform that places the camera at the origin, unrotated.\<close>

definition la_identity :: look_at where
  "la_identity = (\<lambda>d e a. (((1, 0, 0), (0, 1, 0), (0, 0, 1)), (0, 0, 0)))"

text \<open>
  A parameter server that holds both topic parameters of the node, with nothing
  subscribed, printed or published yet.
\<close>

definition ros_overrides :: ros where
  "ros_overrides =
     \<lparr>params = [''~pointcloud_topic'' \<mapsto> ''/lidar/points'',
                ''~cam_info_topic'' \<mapsto> ''/camera_1/camera_info''],
      subscribers = [], printed = [], published = []\<rparr>"

text \<open>A transform listener that knows no transform, and a camera-info message.\<close>

definition ext_no_transform :: extern where
  "ext_no_transform =
     \<lparr>lookupTransform = (\<lambda>src tgt. Inl TfException),
      quaternion_invert = (\<lambda>q. q),
      quaternion_apply = (\<lambda>q p. p)\<rparr>"

definition cam_info_example :: CameraInfo where
  "cam_info_example =
     \<lparr>ci_frame_id = ''camera_0'', ci_height = 1616, ci_width = 1232,
      ci_K = (758, 0, 621, 0, 761, 756, 0, 0, 1)\<rparr>"

section \<open>Auxiliary facts\<close>

lemma torch_sum_filter: "torch_sum bs = real (length (filter (\<lambda>b. b) bs))"
  by (induction bs) (simp_all add: torch_sum_def)

lemma torch_sum_map: "torch_sum (map P xs) = real (length (filter P xs))"
  by (induction xs) (simp_all add: torch_sum_def)

lemma logical_and_map: "logical_and (map P xs) (map Q xs) = map (\<lambda>x. P x \<and> Q x) xs"
  by (induction xs) (simp_all add: logical_and_def)

lemma length_rfp_verts: "length (rfp_verts la cdist elev azim verts) = length verts"
  by (simp add: rfp_verts_def split: prod.splits)

lemma rfp_mask_map:
  "rfp_mask la cdist elev azim verts mn mx =
     map (\<lambda>p. (vz p > mn \<and> vz p < mx) \<and>
               (case pts_homo (top_left3 (fst load_intrinsics)) p of (u, v, w) \<Rightarrow>
                  w > 0 \<and> fgt u 1 \<and> flt u (fst (snd load_intrinsics) - 1) \<and>
                  fgt v 1 \<and> flt v (snd (snd load_intrinsics) - 1)))
         (rfp_verts la cdist elev azim verts)"
  by (simp add: rfp_mask_def rfp_dist_mask_def rfp_fov_mask_def logical_and_map Let_def
        load_intrinsics_def)

lemma in_img_iff:
  "(case pts_homo M p of (u, v, w) \<Rightarrow>
      w > 0 \<and> fgt u 1 \<and> flt u (W - 1) \<and> fgt v 1 \<and> flt v (H - 1)) =
   (vz (matvec M p) > 0 \<and>
    1 < vx (matvec M p) / vz (matvec M p) \<and> vx (matvec M p) / vz (matvec M p) < W - 1 \<and>
    1 < vy (matvec M p) / vz (matvec M p) \<and> vy (matvec M p) / vz (matvec M p) < H - 1)"
proof -
  obtain x y z where m: "matvec M p = (x, y, z)" by (metis prod_cases3)
  show ?thesis by (auto simp: pts_homo_def m fdiv_def)
qed

lemma in_img_boundary:
  assumes "fst (pts_homo M p) = Fin 0 \<or> fst (pts_homo M p) = Fin (W - 1) \<or>
           fst (snd (pts_homo M p)) = Fin 0 \<or> fst (snd (pts_homo M p)) = Fin (H - 1)"
  shows "\<not> (case pts_homo M p of (u, v, w) \<Rightarrow>
      w > 0 \<and> fgt u 1 \<and> flt u (W - 1) \<and> fgt v 1 \<and> flt v (H - 1))"
proof -
  obtain u v w where m: "pts_homo M p = (u, v, w)" by (metis prod_cases3)
  show ?thesis using assms by (auto simp: m)
qed

lemma rfp_fov_mask_eq: "rfp_fov_mask verts = get_fov_mask verts 1616 1232 (fst load_intrinsics)"
  by (simp add: rfp_fov_mask_def get_fov_mask_def load_intrinsics_def)

lemma rfp_dist_mask_eq: "rfp_dist_mask verts mn mx = get_dist_mask verts mn mx"
  by (simp add: rfp_dist_mask_def get_dist_mask_def)


section \<open>The visibility estimator\<close>

text \<open>
  Claim C1. For every point cloud, base pose and upstream gradient \<open>g\<close>, the backward
  pass returns, for each of the three pose parameters, \<open>g\<close> times the difference between
  the reward at the pose with that one parameter increased by \<open>delta\<close> and the reward at
  the base pose, the two other parameters being those of the base pose; it returns
  \<open>None\<close> for the points. Called with four arguments, the estimator takes
  \<open>delta = 0.05\<close>, and its value is the reward at the base pose.
\<close>

theorem backward_finite_difference:
  "FrustumVisibilityEst_backward
      (fst (FrustumVisibilityEst_forward la cdist elev azim verts delta)) g =
     (g * (rewards_from_pose la (cdist + delta) elev azim verts 1 10
             - rewards_from_pose la cdist elev azim verts 1 10),
      g * (rewards_from_pose la cdist (elev + delta) azim verts 1 10
             - rewards_from_pose la cdist elev azim verts 1 10),
      g * (rewards_from_pose la cdist elev (azim + delta) verts 1 10
             - rewards_from_pose la cdist elev azim verts 1 10),
      None)
   \<and> FrustumVisibilityEst_apply la cdist elev azim verts =
       FrustumVisibilityEst_forward la cdist elev azim verts (5 / 100)
   \<and> snd (FrustumVisibilityEst_forward la cdist elev azim verts delta) =
       rewards_from_pose la cdist elev azim verts 1 10"
  by (simp add: FrustumVisibilityEst_backward_def FrustumVisibilityEst_forward_def
        FrustumVisibilityEst_apply_def rewards_from_pose_dflt_def Let_def)

text \<open>
  Claim C2. For every point cloud of \<open>N\<close> points and every pose, the reward is the number
  of indices at which the depth mask and the field-of-view mask are both true; it is at
  least 0 and at most \<open>N\<close>.
\<close>

theorem reward_counts_masked_points:
  "rewards_from_pose la cdist elev azim verts mn mx =
     real (card {i. i < length verts \<and>
                    rfp_dist_mask (rfp_verts la cdist elev azim verts) mn mx ! i \<and>
                    rfp_fov_mask (rfp_verts la cdist elev azim verts) ! i})
   \<and> 0 \<le> rewards_from_pose la cdist elev azim verts mn mx
   \<and> rewards_from_pose la cdist elev azim verts mn mx \<le> real (length verts)"
proof -
  let ?vc = "rfp_verts la cdist elev azim verts"
  let ?D = "rfp_dist_mask ?vc mn mx" and ?F = "rfp_fov_mask ?vc"
  let ?M = "rfp_mask la cdist elev azim verts mn mx"
  have lenD: "length ?D = length verts"
    by (simp add: rfp_dist_mask_def length_rfp_verts)
  have lenF: "length ?F = length verts"
    by (simp add: rfp_fov_mask_def length_rfp_verts split: prod.splits)
  have M: "?M = map2 (\<and>) ?D ?F"
    by (simp add: rfp_mask_def logical_and_def Let_def)
  have lenM: "length ?M = length verts"
    using lenD lenF by (simp add: M)
  have nth: "?M ! i = (?D ! i \<and> ?F ! i)" if "i < length verts" for i
    using that lenD lenF by (simp add: M)
  have "rewards_from_pose la cdist elev azim verts mn mx = real (length (filter (\<lambda>b. b) ?M))"
    by (simp add: rewards_from_pose_def torch_sum_filter)
  also have "length (filter (\<lambda>b. b) ?M) = card {i. i < length ?M \<and> ?M ! i}"
    by (rule length_filter_conv_card)
  also have "{i. i < length ?M \<and> ?M ! i} = {i. i < length verts \<and> ?D ! i \<and> ?F ! i}"
    using nth lenM by auto
  finally have eq: "rewards_from_pose la cdist elev azim verts mn mx =
      real (card {i. i < length verts \<and> ?D ! i \<and> ?F ! i})" .
  have "length (filter (\<lambda>b. b) ?M) \<le> length ?M"
    by (rule length_filter_le)
  then have up: "rewards_from_pose la cdist elev azim verts mn mx \<le> real (length verts)"
    by (simp add: rewards_from_pose_def torch_sum_filter lenM)
  have lo: "0 \<le> rewards_from_pose la cdist elev azim verts mn mx"
    by (simp add: rewards_from_pose_def torch_sum_filter)
  from eq lo up show ?thesis by simp
qed

section \<open>Frame projection\<close>

text \<open>
  Claim C3. The combined mask is the conjunction of the depth mask and the field-of-view
  mask, entry by entry. A point whose camera-frame depth is exactly \<open>min_dist\<close> or
  \<open>max_dist\<close> has a false depth mask. The field-of-view mask of a point is true exactly
  when its projected depth is positive and its projected coordinates lie strictly between
  1 and \<open>width - 1\<close>, and strictly between 1 and \<open>height - 1\<close>; so a point that projects to
  column 0 or \<open>width - 1\<close>, or to row 0 or \<open>height - 1\<close>, has a false field-of-view mask.
  The three copies of the mask in the program agree.
\<close>

theorem combined_mask_strict_boundaries:
  assumes "i < length verts"
  shows
   "rfp_mask la cdist elev azim verts mn mx ! i =
      (rfp_dist_mask (rfp_verts la cdist elev azim verts) mn mx ! i \<and>
       rfp_fov_mask (rfp_verts la cdist elev azim verts) ! i)
    \<and> logical_and (get_dist_mask verts mn mx) (get_fov_mask verts H W K) ! i =
      (get_dist_mask verts mn mx ! i \<and> get_fov_mask verts H W K ! i)
    \<and> (vz (verts ! i) = mn \<or> vz (verts ! i) = mx \<longrightarrow>
         \<not> get_dist_mask verts mn mx ! i \<and> \<not> rfp_dist_mask verts mn mx ! i)
    \<and> get_fov_mask verts H W K ! i =
        (vz (matvec (top_left3 K) (verts ! i)) > 0 \<and>
         1 < vx (matvec (top_left3 K) (verts ! i)) / vz (matvec (top_left3 K) (verts ! i)) \<and>
         vx (matvec (top_left3 K) (verts ! i)) / vz (matvec (top_left3 K) (verts ! i)) < W - 1 \<and>
         1 < vy (matvec (top_left3 K) (verts ! i)) / vz (matvec (top_left3 K) (verts ! i)) \<and>
         vy (matvec (top_left3 K) (verts ! i)) / vz (matvec (top_left3 K) (verts ! i)) < H - 1)
    \<and> rfp_fov_mask verts ! i = get_fov_mask verts 1616 1232 (fst load_intrinsics) ! i
    \<and> get_only_in_img_mask verts H W (top_left3 K) ! i = get_fov_mask verts H W K ! i
    \<and> (fst (pts_homo (top_left3 K) (verts ! i)) = Fin 0 \<or>
        fst (pts_homo (top_left3 K) (verts ! i)) = Fin (W - 1) \<or>
        fst (snd (pts_homo (top_left3 K) (verts ! i))) = Fin 0 \<or>
        fst (snd (pts_homo (top_left3 K) (verts ! i))) = Fin (H - 1) \<longrightarrow>
         \<not> get_fov_mask verts H W K ! i)"
proof -
  let ?vc = "rfp_verts la cdist elev azim verts"
  have c1: "rfp_mask la cdist elev azim verts mn mx ! i =
      (rfp_dist_mask ?vc mn mx ! i \<and> rfp_fov_mask ?vc ! i)"
    using assms
    by (simp add: rfp_mask_def Let_def logical_and_def rfp_dist_mask_def rfp_fov_mask_eq
          get_fov_mask_def length_rfp_verts)
  have c2: "logical_and (get_dist_mask verts mn mx) (get_fov_mask verts H W K) ! i =
      (get_dist_mask verts mn mx ! i \<and> get_fov_mask verts H W K ! i)"
    using assms by (simp add: logical_and_def get_dist_mask_def get_fov_mask_def)
  have c3: "vz (verts ! i) = mn \<or> vz (verts ! i) = mx \<longrightarrow>
         \<not> get_dist_mask verts mn mx ! i \<and> \<not> rfp_dist_mask verts mn mx ! i"
    using assms by (auto simp: get_dist_mask_def rfp_dist_mask_def)
  have c4: "get_fov_mask verts H W K ! i =
        (vz (matvec (top_left3 K) (verts ! i)) > 0 \<and>
         1 < vx (matvec (top_left3 K) (verts ! i)) / vz (matvec (top_left3 K) (verts ! i)) \<and>
         vx (matvec (top_left3 K) (verts ! i)) / vz (matvec (top_left3 K) (verts ! i)) < W - 1 \<and>
         1 < vy (matvec (top_left3 K) (verts ! i)) / vz (matvec (top_left3 K) (verts ! i)) \<and>
         vy (matvec (top_left3 K) (verts ! i)) / vz (matvec (top_left3 K) (verts ! i)) < H - 1)"
    using assms by (simp add: get_fov_mask_def in_img_iff)
  have c5: "rfp_fov_mask verts ! i = get_fov_mask verts 1616 1232 (fst load_intrinsics) ! i"
    by (simp add: rfp_fov_mask_eq)
  have c6: "get_only_in_img_mask verts H W (top_left3 K) ! i = get_fov_mask verts H W K ! i"
    by (simp add: get_only_in_img_mask_def get_fov_mask_def)
  have c7: "fst (pts_homo (top_left3 K) (verts ! i)) = Fin 0 \<or>
        fst (pts_homo (top_left3 K) (verts ! i)) = Fin (W - 1) \<or>
        fst (snd (pts_homo (top_left3 K) (verts ! i))) = Fin 0 \<or>
        fst (snd (pts_homo (top_left3 K) (verts ! i))) = Fin (H - 1) \<longrightarrow>
         \<not> get_fov_mask verts H W K ! i"
    using assms in_img_boundary [of "top_left3 K" "verts ! i" W H]
    by (simp add: get_fov_mask_def)
  from c1 c2 c3 c4 c5 c6 c7 show ?thesis by blast
qed

theorem combined_mask_strict_boundaries_witness:
  "(0::nat) < length [(- 62146572 / 75803967, 0, 1 :: real)]
   \<and> fst (pts_homo (top_left3 (fst load_intrinsics)) ([(- 62146572 / 75803967, 0, 1)] ! 0)) = Fin 0
   \<and> vz ([(- 62146572 / 75803967, 0, 1)] ! 0) = 1
   \<and> \<not> get_dist_mask [(- 62146572 / 75803967, 0, 1)] 1 5 ! 0
   \<and> \<not> get_fov_mask [(- 62146572 / 75803967, 0, 1)] 1616 1232 (fst load_intrinsics) ! 0
   \<and> \<not> rfp_mask la_identity 0 0 0 [(- 62146572 / 75803967, 0, 1)] 1 5 ! 0"
proof -
  let ?ps = "[(- 62146572 / 75803967, 0, 1 :: real)]"
  have h: "(0::nat) < length ?ps" by simp
  have u: "fst (pts_homo (top_left3 (fst load_intrinsics)) (?ps ! 0)) = Fin 0"
    by (simp add: pts_homo_def load_intrinsics_def fdiv_def)
  have z: "vz (?ps ! 0) = 1" by simp
  have v: "rfp_verts la_identity 0 0 0 ?ps = ?ps"
    by (simp add: rfp_verts_def la_identity_def)
  note t = combined_mask_strict_boundaries [OF h, of la_identity 0 0 0 1 5 1616 1232
      "fst load_intrinsics"]
  have d: "\<not> get_dist_mask ?ps 1 5 ! 0 \<and> \<not> rfp_dist_mask ?ps 1 5 ! 0"
    using t z by blast
  have f: "\<not> get_fov_mask ?ps 1616 1232 (fst load_intrinsics) ! 0"
    using t u by blast
  have m: "\<not> rfp_mask la_identity 0 0 0 ?ps 1 5 ! 0"
    using t d unfolding v by blast
  from h u z d f m show ?thesis by blast
qed

lemma length_filter_mono:
  "(\<And>x. x \<in> set xs \<Longrightarrow> P x \<Longrightarrow> Q x) \<Longrightarrow> length (filter P xs) \<le> length (filter Q xs)"
  by (induction xs) auto

lemma rewards_two_points_band_1_5:
  "rewards_from_pose la_identity 0 0 0 [(0, 0, 3), (0, 0, 7)] 1 5 = 1"
  by (simp add: rewards_from_pose_def rfp_mask_def rfp_verts_def rfp_dist_mask_def
       rfp_fov_mask_def pts_homo_def load_intrinsics_def la_identity_def logical_and_def
       torch_sum_def fdiv_def Let_def)

lemma rewards_two_points_band_1_10:
  "rewards_from_pose la_identity 0 0 0 [(0, 0, 3), (0, 0, 7)] 1 10 = 2"
  by (simp add: rewards_from_pose_def rfp_mask_def rfp_verts_def rfp_dist_mask_def
       rfp_fov_mask_def pts_homo_def load_intrinsics_def la_identity_def logical_and_def
       torch_sum_def fdiv_def Let_def)

text \<open>
  Claim C7. For every point cloud and pose, narrowing the depth band does not increase
  the number of points that pass both masks: with \<open>min_dist \<le> min_dist'\<close> and
  \<open>max_dist' \<le> max_dist\<close>, the count under \<open>(min_dist', max_dist')\<close> is at most the
  count under \<open>(min_dist, max_dist)\<close>.
\<close>

theorem reward_monotone_in_depth_band:
  assumes "mn \<le> mn'" and "mx' \<le> mx"
  shows "rewards_from_pose la cdist elev azim verts mn' mx'
           \<le> rewards_from_pose la cdist elev azim verts mn mx"
proof -
  have "length (filter (\<lambda>p. (vz p > mn' \<and> vz p < mx') \<and>
               (case pts_homo (top_left3 (fst load_intrinsics)) p of (u, v, w) \<Rightarrow>
                  w > 0 \<and> fgt u 1 \<and> flt u (fst (snd load_intrinsics) - 1) \<and>
                  fgt v 1 \<and> flt v (snd (snd load_intrinsics) - 1)))
            (rfp_verts la cdist elev azim verts))
        \<le> length (filter (\<lambda>p. (vz p > mn \<and> vz p < mx) \<and>
               (case pts_homo (top_left3 (fst load_intrinsics)) p of (u, v, w) \<Rightarrow>
                  w > 0 \<and> fgt u 1 \<and> flt u (fst (snd load_intrinsics) - 1) \<and>
                  fgt v 1 \<and> flt v (snd (snd load_intrinsics) - 1)))
            (rfp_verts la cdist elev azim verts))"
    using assms by (intro length_filter_mono) auto
  then show ?thesis
    by (simp add: rewards_from_pose_def rfp_mask_map torch_sum_map)
qed

theorem reward_monotone_in_depth_band_witness:
  "(1::real) \<le> 1 \<and> (5::real) \<le> 10
   \<and> rewards_from_pose la_identity 0 0 0 [(0, 0, 3), (0, 0, 7)] 1 5 = 1
   \<and> rewards_from_pose la_identity 0 0 0 [(0, 0, 3), (0, 0, 7)] 1 10 = 2
   \<and> rewards_from_pose la_identity 0 0 0 [(0, 0, 3), (0, 0, 7)] 1 5
       \<le> rewards_from_pose la_identity 0 0 0 [(0, 0, 3), (0, 0, 7)] 1 10"
proof -
  have a: "(1::real) \<le> 1" and b: "(5::real) \<le> 10" by simp_all
  from reward_monotone_in_depth_band [OF a b, of la_identity 0 0 0 "[(0, 0, 3), (0, 0, 7)]"]
    a b rewards_two_points_band_1_5 rewards_two_points_band_1_10
  show ?thesis by blast
qed

lemma matvec_round_trip:
  assumes "orthonormal R"
  shows "vadd (matvec R (matvec (transpose3 R) (vsub p T))) T = p"
proof -
  obtain a b c d e f g h i where R: "R = ((a, b, c), (d, e, f), (g, h, i))"
    by (metis prod_cases3)
  obtain x y z where p: "p = (x, y, z)" by (metis prod_cases3)
  obtain t u v where T: "T = (t, u, v)" by (metis prod_cases3)
  from assms R have o:
    "a * a + b * b + c * c = 1" "d * d + e * e + f * f = 1" "g * g + h * h + i * i = 1"
    "a * d + b * e + c * f = 0" "a * g + b * h + c * i = 0" "d * g + e * h + f * i = 0"
    by (simp_all add: orthonormal_def)
  have e1: "a * (a * X + d * Y + g * Z) + b * (b * X + e * Y + h * Z) + c * (c * X + f * Y + i * Z)
      = X * (a * a + b * b + c * c) + Y * (a * d + b * e + c * f) + Z * (a * g + b * h + c * i)"
    for X Y Z :: real by (simp add: algebra_simps)
  have e2: "d * (a * X + d * Y + g * Z) + e * (b * X + e * Y + h * Z) + f * (c * X + f * Y + i * Z)
      = X * (a * d + b * e + c * f) + Y * (d * d + e * e + f * f) + Z * (d * g + e * h + f * i)"
    for X Y Z :: real by (simp add: algebra_simps)
  have e3: "g * (a * X + d * Y + g * Z) + h * (b * X + e * Y + h * Z) + i * (c * X + f * Y + i * Z)
      = X * (a * g + b * h + c * i) + Y * (d * g + e * h + f * i) + Z * (g * g + h * h + i * i)"
    for X Y Z :: real by (simp add: algebra_simps)
  show ?thesis
    unfolding R p T by (simp add: e1 e2 e3 o)
qed

text \<open>
  Claim C8. For a rotation \<open>R\<close> with orthonormal rows and a translation \<open>T\<close>, taking a
  point cloud to the camera frame (subtract \<open>T\<close>, multiply by the transpose of \<open>R\<close>) and
  back (multiply by \<open>R\<close>, add \<open>T\<close>) gives the original points; the camera-frame cloud has as
  many points as the original. \<open>to_camera_frame\<close> is a function of its three arguments
  and returns only the new points. The numbers are reals, so the equality is exact.
\<close>

theorem camera_frame_round_trip:
  assumes "orthonormal R"
  shows "spec_from_camera_frame (to_camera_frame verts R T) R T = verts
       \<and> length (to_camera_frame verts R T) = length verts"
  using matvec_round_trip [OF assms]
  by (simp add: spec_from_camera_frame_def to_camera_frame_def Let_def map_idI)

theorem camera_frame_round_trip_witness:
  "orthonormal ((0, - 1, 0), (1, 0, 0), (0, 0, 1))
   \<and> to_camera_frame [(4, 5, 6), (1, 2, 3)] ((0, - 1, 0), (1, 0, 0), (0, 0, 1)) (1, 2, 3)
       = [(3, - 3, 3), (0, 0, 0)]
   \<and> spec_from_camera_frame [(3, - 3, 3), (0, 0, 0)] ((0, - 1, 0), (1, 0, 0), (0, 0, 1)) (1, 2, 3)
       = [(4, 5, 6), (1, 2, 3)]"
proof -
  have o: "orthonormal ((0, - 1, 0), (1, 0, 0), (0, 0, 1))"
    by (simp add: orthonormal_def)
  have c: "to_camera_frame [(4, 5, 6), (1, 2, 3)] ((0, - 1, 0), (1, 0, 0), (0, 0, 1)) (1, 2, 3)
       = [(3, - 3, 3), (0, 0, 0)]"
    by (simp add: to_camera_frame_def)
  from camera_frame_round_trip [OF o, of "[(4, 5, 6), (1, 2, 3)]" "(1, 2, 3)"] o c
  show ?thesis by simp
qed

section \<open>The loss\<close>

lemma Model_forward_loss:
  "snd (snd (Model_forward la m)) =
     fdiv 1 (rewards_from_pose la (m_dist m) (m_elev m) (m_azim m) (m_points m) 1 10 + m_eps m)"
  by (simp add: Model_forward_def Let_def FrustumVisibilityEst_apply_def
        FrustumVisibilityEst_forward_def rewards_from_pose_dflt_def split: prod.splits)

lemma rewards_nonneg: "0 \<le> rewards_from_pose la cdist elev azim verts mn mx"
  by (simp add: rewards_from_pose_def torch_sum_filter)

lemma rewards_empty: "rewards_from_pose la cdist elev azim [] mn mx = 0"
  by (simp add: rewards_from_pose_def rfp_mask_map rfp_verts_def torch_sum_def split: prod.splits)

text \<open>
  Claim C4. With \<open>eps = 1e-6\<close>, as the constructor sets it and as \<open>forward\<close> leaves it,
  the loss is the finite number \<open>1 / (reward + eps)\<close>: the denominator is not zero and
  the loss is positive, also when no point is visible.
\<close>

theorem loss_finite_positive:
  assumes "m_eps m = 1 / 1000000"
  shows "snd (snd (Model_forward la m)) =
           Fin (1 / (rewards_from_pose la (m_dist m) (m_elev m) (m_azim m) (m_points m) 1 10
                      + 1 / 1000000))
       \<and> rewards_from_pose la (m_dist m) (m_elev m) (m_azim m) (m_points m) 1 10 + 1 / 1000000 \<noteq> 0
       \<and> 0 < 1 / (rewards_from_pose la (m_dist m) (m_elev m) (m_azim m) (m_points m) 1 10
                      + 1 / 1000000)
       \<and> m_eps (fst (Model_forward la m)) = 1 / 1000000
       \<and> m_eps (Model_init la points cdist elev azim mn mx) = 1 / 1000000"
proof -
  let ?r = "rewards_from_pose la (m_dist m) (m_elev m) (m_azim m) (m_points m) 1 10"
  have pos: "0 < ?r + 1 / 1000000"
    using rewards_nonneg [of la "m_dist m" "m_elev m" "m_azim m" "m_points m" 1 10] by simp
  then have ne: "?r + 1 / 1000000 \<noteq> 0" by simp
  have l: "snd (snd (Model_forward la m)) = Fin (1 / (?r + 1 / 1000000))"
    using ne by (simp add: Model_forward_loss assms fdiv_def)
  have q: "0 < 1 / (?r + 1 / 1000000)"
    using pos by simp
  have e: "m_eps (fst (Model_forward la m)) = 1 / 1000000"
    using assms by (simp add: Model_forward_def Let_def split: prod.splits)
  have i: "m_eps (Model_init la points cdist elev azim mn mx) = 1 / 1000000"
    by (simp add: Model_init_def split: prod.splits)
  from l ne q e i show ?thesis by blast
qed

theorem loss_finite_positive_witness:
  "m_eps (Model_init_dflt la_identity [] 0 0 0) = 1 / 1000000
   \<and> snd (snd (Model_forward la_identity (Model_init_dflt la_identity [] 0 0 0))) = Fin 1000000"
proof -
  let ?m = "Model_init_dflt la_identity [] 0 0 0"
  have h: "m_eps ?m = 1 / 1000000"
    by (simp add: Model_init_dflt_def Model_init_def split: prod.splits)
  have p: "m_points ?m = []"
    by (simp add: Model_init_dflt_def Model_init_def split: prod.splits)
  have "snd (snd (Model_forward la_identity ?m)) =
      Fin (1 / (rewards_from_pose la_identity (m_dist ?m) (m_elev ?m) (m_azim ?m) (m_points ?m) 1 10
                  + 1 / 1000000))"
    using loss_finite_positive [OF h, of la_identity] by blast
  then have "snd (snd (Model_forward la_identity ?m)) = Fin 1000000"
    by (simp add: p rewards_empty)
  with h show ?thesis by blast
qed

section \<open>The perspective divide\<close>

lemma matvec_zero: "matvec M (0, 0, 0) = (0, 0, 0)"
proof -
  obtain r0 r1 r2 where M: "M = (r0, r1, r2)" by (metis prod_cases3)
  obtain a b c where r0: "r0 = (a, b, c)" by (metis prod_cases3)
  obtain d e f where r1: "r1 = (d, e, f)" by (metis prod_cases3)
  obtain g h i where r2: "r2 = (g, h, i)" by (metis prod_cases3)
  show ?thesis by (simp add: M r0 r1 r2)
qed

lemma vsub_self: "vsub T T = (0, 0, 0)"
proof -
  obtain t u v where T: "T = (t, u, v)" by (metis prod_cases3)
  show ?thesis by (simp add: T)
qed

lemma pts_homo_zero: "pts_homo M (0, 0, 0) = (NaN, NaN, 0)"
  by (simp add: pts_homo_def matvec_zero fdiv_def)

lemma is_finite_fdiv: "is_finite (fdiv a b) = (b \<noteq> 0)"
  by (simp add: fdiv_def)

lemma pts_homo_finite:
  "is_finite (fst (pts_homo M p)) = (vz (matvec M p) \<noteq> 0)"
  "is_finite (fst (snd (pts_homo M p))) = (vz (matvec M p) \<noteq> 0)"
proof -
  obtain x y z where m: "matvec M p = (x, y, z)" by (metis prod_cases3)
  show "is_finite (fst (pts_homo M p)) = (vz (matvec M p) \<noteq> 0)"
    by (simp add: pts_homo_def m is_finite_fdiv)
  show "is_finite (fst (snd (pts_homo M p))) = (vz (matvec M p) \<noteq> 0)"
    by (simp add: pts_homo_def m is_finite_fdiv)
qed

lemma rfp_verts_camera_position:
  "rfp_verts la cdist elev azim [snd (la cdist elev azim)] = [(0, 0, 0)]"
  by (simp add: rfp_verts_def Let_def vsub_self matvec_zero split: prod.splits)

text \<open>
  Claim C5. Nothing guards the perspective divide: the quotients are taken for every
  point, and a quotient is finite exactly when the projected depth is not zero. A
  zero depth is reachable for every pose: the point at the camera position has
  camera-frame coordinates \<open>(0, 0, 0)\<close>, and its two quotients are \<open>0 / 0\<close>. The mask of
  such a point is false, through the test on the projected depth alone.
\<close>

theorem perspective_divide_by_zero_reachable:
  "rfp_verts la cdist elev azim [snd (la cdist elev azim)] = [(0, 0, 0)]
   \<and> to_camera_frame [T] R T = [(0, 0, 0)]
   \<and> pts_homo M (0, 0, 0) = (NaN, NaN, 0)
   \<and> pts_homo (top_left3 (fst load_intrinsics)) (1, 1, 0) = (PInf, PInf, 0)
   \<and> is_finite (fst (pts_homo M p)) = (vz (matvec M p) \<noteq> 0)
   \<and> is_finite (fst (snd (pts_homo M p))) = (vz (matvec M p) \<noteq> 0)
   \<and> rfp_fov_mask (rfp_verts la cdist elev azim [snd (la cdist elev azim)]) = [False]
   \<and> get_fov_mask (to_camera_frame [T] R T) H W K = [False]
   \<and> get_only_in_img_mask [(0, 0, 0)] H W M = [False]
   \<and> rewards_from_pose la cdist elev azim [snd (la cdist elev azim)] mn mx = 0"
proof -
  have a: "to_camera_frame [T] R T = [(0, 0, 0)]"
    by (simp add: to_camera_frame_def Let_def vsub_self matvec_zero)
  have b: "pts_homo (top_left3 (fst load_intrinsics)) (1, 1, 0) = (PInf, PInf, 0)"
    by (simp add: pts_homo_def load_intrinsics_def fdiv_def)
  have c: "rfp_fov_mask (rfp_verts la cdist elev azim [snd (la cdist elev azim)]) = [False]"
    by (simp add: rfp_verts_camera_position rfp_fov_mask_def pts_homo_zero split: prod.splits)
  have d: "get_fov_mask (to_camera_frame [T] R T) H W K = [False]"
    by (simp add: a get_fov_mask_def pts_homo_zero)
  have e: "get_only_in_img_mask [(0, 0, 0)] H W M = [False]"
    by (simp add: get_only_in_img_mask_def pts_homo_zero)
  have c': "rfp_fov_mask [(0, 0, 0)] = [False]"
    by (simp add: rfp_fov_mask_def pts_homo_zero split: prod.splits)
  have f: "rewards_from_pose la cdist elev azim [snd (la cdist elev azim)] mn mx = 0"
    by (simp add: rewards_from_pose_def rfp_mask_def Let_def c' logical_and_def
          rfp_verts_camera_position rfp_dist_mask_def torch_sum_def)
  from rfp_verts_camera_position [of la cdist elev azim] a pts_homo_zero [of M] b
    pts_homo_finite [of M p] c d e f
  show ?thesis by blast
qed

section \<open>The two depth bands of the optimizer\<close>

lemma rfp_verts_to_camera_frame:
  "rfp_verts la cdist elev azim verts =
     to_camera_frame verts (fst (la cdist elev azim)) (snd (la cdist elev azim))"
  by (simp add: rfp_verts_def to_camera_frame_def Let_def split: prod.splits)

lemma Model_forward_visible:
  "fst (snd (Model_forward la (Model_init la pts cdist elev azim mn mx))) =
     select_rows (rfp_verts la cdist elev azim pts) (rfp_mask la cdist elev azim pts mn mx)"
  by (simp add: Model_forward_def Model_init_def Let_def rfp_mask_def rfp_verts_to_camera_frame
        rfp_fov_mask_eq rfp_dist_mask_eq load_intrinsics_def split: prod.splits)


lemma Model_init_loss:
  "snd (snd (Model_forward la (Model_init la pts cdist elev azim mn mx))) =
     fdiv 1 (rewards_from_pose la cdist elev azim pts 1 10 + 1 / 1000000)"
  by (simp add: Model_forward_loss Model_init_def split: prod.splits)

lemma select_rows_two_points_band_1_5:
  "select_rows (rfp_verts la_identity 0 0 0 [(0, 0, 3), (0, 0, 7)])
     (rfp_mask la_identity 0 0 0 [(0, 0, 3), (0, 0, 7)] 1 5) = [(0, 0, 3)]"
  by (simp add: select_rows_def rfp_mask_def rfp_verts_def rfp_dist_mask_def
       rfp_fov_mask_def pts_homo_def load_intrinsics_def la_identity_def logical_and_def
       fdiv_def Let_def)

lemma select_rows_two_points_band_1_10:
  "select_rows (rfp_verts la_identity 0 0 0 [(0, 0, 3), (0, 0, 7)])
     (rfp_mask la_identity 0 0 0 [(0, 0, 3), (0, 0, 7)] 1 10) = [(0, 0, 3), (0, 0, 7)]"
  by (simp add: select_rows_def rfp_mask_def rfp_verts_def rfp_dist_mask_def
       rfp_fov_mask_def pts_homo_def load_intrinsics_def la_identity_def logical_and_def
       fdiv_def Let_def)

text \<open>
  Claim C6. Whatever depth limits the model is built with, the loss is computed from the
  reward with the depth band \<open>(1, 10)\<close>, while the visible points that \<open>forward\<close> returns
  are selected with the configured limits. The reward is the number of points selected
  with the band \<open>(1, 10)\<close>. With the default limits \<open>(1, 5)\<close> and two points on the optical
  axis at depths 3 and 7, the returned visible points are a strict subset of the points
  counted in the reward.
\<close>

theorem reward_band_differs_from_visible_band:
  "snd (snd (Model_forward la (Model_init la pts cdist elev azim mn mx))) =
     fdiv 1 (rewards_from_pose la cdist elev azim pts 1 10 + 1 / 1000000)
   \<and> fst (snd (Model_forward la (Model_init la pts cdist elev azim mn mx))) =
     select_rows (rfp_verts la cdist elev azim pts) (rfp_mask la cdist elev azim pts mn mx)
   \<and> rewards_from_pose la cdist elev azim pts 1 10 =
     real (length (select_rows (rfp_verts la cdist elev azim pts)
                     (rfp_mask la cdist elev azim pts 1 10)))
   \<and> fst (snd (Model_forward la_identity
                 (Model_init_dflt la_identity [(0, 0, 3), (0, 0, 7)] 0 0 0))) = [(0, 0, 3)]
   \<and> select_rows (rfp_verts la_identity 0 0 0 [(0, 0, 3), (0, 0, 7)])
        (rfp_mask la_identity 0 0 0 [(0, 0, 3), (0, 0, 7)] 1 10) = [(0, 0, 3), (0, 0, 7)]
   \<and> set (fst (snd (Model_forward la_identity
                 (Model_init_dflt la_identity [(0, 0, 3), (0, 0, 7)] 0 0 0))))
       \<subset> set (select_rows (rfp_verts la_identity 0 0 0 [(0, 0, 3), (0, 0, 7)])
                 (rfp_mask la_identity 0 0 0 [(0, 0, 3), (0, 0, 7)] 1 10))
   \<and> snd (snd (Model_forward la_identity
                 (Model_init_dflt la_identity [(0, 0, 3), (0, 0, 7)] 0 0 0))) =
       fdiv 1 (2 + 1 / 1000000)"
proof -
  let ?pts = "[(0, 0, 3), (0, 0, 7 :: real)] :: vec3 list"
  let ?m = "Model_init_dflt la_identity ?pts 0 0 0"
  have c: "rewards_from_pose la cdist elev azim pts 1 10 =
     real (length (select_rows (rfp_verts la cdist elev azim pts)
                     (rfp_mask la cdist elev azim pts 1 10)))"
  proof -
    have "length (rfp_mask la cdist elev azim pts 1 10) = length (rfp_verts la cdist elev azim pts)"
      by (simp add: rfp_mask_map)
    then have "length (select_rows (rfp_verts la cdist elev azim pts)
                     (rfp_mask la cdist elev azim pts 1 10))
        = length (filter (\<lambda>b. b) (rfp_mask la cdist elev azim pts 1 10))"
      by (simp add: select_rows_def rfp_mask_map length_filter_map filter_map o_def zip_map2
            zip_same_conv_map)
    then show ?thesis by (simp add: rewards_from_pose_def torch_sum_filter)
  qed
  have v: "fst (snd (Model_forward la_identity ?m)) = [(0, 0, 3)]"
    by (simp add: Model_init_dflt_def Model_forward_visible select_rows_two_points_band_1_5)
  have s: "set (fst (snd (Model_forward la_identity ?m)))
       \<subset> set (select_rows (rfp_verts la_identity 0 0 0 ?pts)
                 (rfp_mask la_identity 0 0 0 ?pts 1 10))"
    unfolding v select_rows_two_points_band_1_10 by auto
  have l: "snd (snd (Model_forward la_identity ?m)) = fdiv 1 (2 + 1 / 1000000)"
    by (simp add: Model_init_dflt_def Model_init_loss rewards_two_points_band_1_10)
  from Model_init_loss [of la pts cdist elev azim mn mx]
    Model_forward_visible [of la pts cdist elev azim mn mx] c v
    select_rows_two_points_band_1_10 s l
  show ?thesis by blast
qed

section \<open>The live pipeline\<close>

lemma PointsProcessor_init_subscribers:
  "subscribers (fst (PointsProcessor_init w a b c)) =
     subscribers w @ [(a, Pc_callback), (b, Cam_info_callback)]"
  by (simp add: PointsProcessor_init_def Let_def)

text \<open>
  Claim C9. The claim is that the node subscribes to the topics given by the parameters
  \<open>~pointcloud_topic\<close> and \<open>~cam_info_topic\<close>. The constructor reads both parameters,
  stores them and prints them after \<open>Subscribed to\<close>, but it subscribes to its own
  arguments. With both parameters set and the arguments at their defaults, the
  subscriptions are the default topics, not the parameters' values.
\<close>

theorem init_subscribes_to_constructor_arguments:
  "subscribers (fst (PointsProcessor_init_dflt ros_overrides)) =
     [(''/output_3d_pc'', Pc_callback), (''/viz/camera_0/camera_info'', Cam_info_callback)]
   \<and> printed (fst (PointsProcessor_init_dflt ros_overrides)) =
     [Subscribed_to ''/lidar/points'', Subscribed_to ''/camera_1/camera_info'']
   \<and> pc_topic (snd (PointsProcessor_init_dflt ros_overrides)) = ''/lidar/points''
   \<and> cam_info_topic (snd (PointsProcessor_init_dflt ros_overrides)) = ''/camera_1/camera_info''
   \<and> map fst (subscribers (fst (PointsProcessor_init_dflt ros_overrides)))
       \<noteq> [''/lidar/points'', ''/camera_1/camera_info'']"
  by (simp add: PointsProcessor_init_dflt_def PointsProcessor_init_def Let_def
        ros_overrides_def get_param_def)

lemma PointsProcessor_init_pc_frame:
  "pc_frame (snd (PointsProcessor_init w a b c)) = None"
  by (simp add: PointsProcessor_init_def Let_def)

text \<open>
  Claim C10. A camera-info message handled while no point cloud has been received
  (\<open>pc_frame\<close> is \<open>None\<close>, as the constructor leaves it) raises nothing and publishes
  nothing: the handler stores the camera frame and the intrinsics and returns, and
  \<open>pc_frame\<close> is still \<open>None\<close> afterwards. Once a point cloud has been handled, the same
  message makes the handler call \<open>run\<close>.
\<close>

theorem cam_info_before_point_cloud_skips:
  assumes "pc_frame self = None"
  shows "cam_info_callback ext w self msg =
           (None, w, self\<lparr>cam_frame := Some (ci_frame_id msg),
                          pp_K := set_K (pp_K self) (ci_K msg)\<rparr>)
       \<and> published (fst (snd (cam_info_callback ext w self msg))) = published w
       \<and> pc_frame (snd (snd (cam_info_callback ext w self msg))) = None
       \<and> pc_frame (snd (PointsProcessor_init w a b c)) = None
       \<and> cam_info_callback ext w (pc_callback self pc_msg) msg =
           run ext w ((pc_callback self pc_msg)\<lparr>cam_frame := Some (ci_frame_id msg),
                          pp_K := set_K (pp_K (pc_callback self pc_msg)) (ci_K msg)\<rparr>)
             (ci_height msg) (ci_width msg)"
proof -
  have s: "cam_info_callback ext w self msg =
           (None, w, self\<lparr>cam_frame := Some (ci_frame_id msg),
                          pp_K := set_K (pp_K self) (ci_K msg)\<rparr>)"
    using assms by (simp add: cam_info_callback_def Let_def)
  have p: "published (fst (snd (cam_info_callback ext w self msg))) = published w"
    by (simp add: s)
  have f: "pc_frame (snd (snd (cam_info_callback ext w self msg))) = None"
    using assms by (simp add: s)
  have r: "cam_info_callback ext w (pc_callback self pc_msg) msg =
           run ext w ((pc_callback self pc_msg)\<lparr>cam_frame := Some (ci_frame_id msg),
                          pp_K := set_K (pp_K (pc_callback self pc_msg)) (ci_K msg)\<rparr>)
             (ci_height msg) (ci_width msg)"
    by (simp add: cam_info_callback_def pc_callback_def Let_def)
  from s p f PointsProcessor_init_pc_frame [of w a b c] r show ?thesis by blast
qed

theorem cam_info_before_point_cloud_skips_witness:
  "pc_frame (snd (PointsProcessor_init_dflt ros_overrides)) = None
   \<and> fst (cam_info_callback ext_no_transform (fst (PointsProcessor_init_dflt ros_overrides))
            (snd (PointsProcessor_init_dflt ros_overrides)) cam_info_example) = None
   \<and> published (fst (snd (cam_info_callback ext_no_transform
            (fst (PointsProcessor_init_dflt ros_overrides))
            (snd (PointsProcessor_init_dflt ros_overrides)) cam_info_example))) = []"
proof -
  let ?w = "fst (PointsProcessor_init_dflt ros_overrides)"
  let ?self = "snd (PointsProcessor_init_dflt ros_overrides)"
  have h: "pc_frame ?self = None"
    by (simp add: PointsProcessor_init_dflt_def PointsProcessor_init_pc_frame)
  have pw: "published ?w = []"
    by (simp add: PointsProcessor_init_dflt_def PointsProcessor_init_def Let_def ros_overrides_def)
  note t = cam_info_before_point_cloud_skips [OF h, of ext_no_transform ?w cam_info_example]
  have a: "fst (cam_info_callback ext_no_transform ?w ?self cam_info_example) = None"
    using t by simp
  have b: "published (fst (snd (cam_info_callback ext_no_transform ?w ?self cam_info_example))) = []"
    using t pw by simp
  from h a b show ?thesis by blast
qed

end
